theory Spec2Isabelle
  imports Main
begin

section \<open>Route 53 record auto linker: the event handler of update-records.js\<close>

text \<open>
  The handler receives one audit event, reads the inventory (EC2, ELBv2), the zone
  directory (Route 53) and the association table (DynamoDB), and submits one record-set
  change. The embedding follows the JavaScript line by line:
  \<^item> a JavaScript value that may be \<^verbatim>\<open>undefined\<close> or \<^verbatim>\<open>null\<close> is an \<open>option\<close>;
  \<^item> reading a property of \<^verbatim>\<open>undefined\<close> throws, which is the value \<open>Inl TypeError\<close>;
  \<^item> an awaited promise that rejects is the value \<open>Inl (Rejected code)\<close>;
  \<^item> every call to an AWS client is appended to the field \<open>calls\<close> of the world, so
    that the order and the number of the calls can be stated;
  \<^item> \<^verbatim>\<open>console.log\<close> is left out: it touches none of the services.
\<close>

subsection \<open>Values\<close>

datatype error = TypeError | Rejected string

text \<open>
  What the inventory returns for an instance or a load balancer, and what the table keeps
  as \<^verbatim>\<open>object\<close>: an attribute bag. Only the attributes the handler reads are kept; an
  attribute the bag does not have reads as \<^verbatim>\<open>undefined\<close>.
\<close>

record resource =
  InstanceId :: "string option"
  PrivateIpAddress :: "string option"
  LoadBalancerArn :: "string option"
  CanonicalHostedZoneId :: "string option"
  DNSName :: "string option"
  Type :: "string option"

text \<open>A hosted zone of the answer of \<^verbatim>\<open>listHostedZonesByName\<close>.\<close>

record hostedZone =
  zone_Id :: string
  zone_Name :: string

text \<open>A row of the table \<^verbatim>\<open>Route53Records\<close>; its key \<^verbatim>\<open>id\<close> is the key of the map.\<close>

record tableItem =
  item_alias :: string
  item_object :: resource

text \<open>The change batch of \<^verbatim>\<open>changeResourceRecordSets\<close>.\<close>

record aliasTarget =
  at_HostedZoneId :: "string option"
  at_DNSName :: string
  at_EvaluateTargetHealth :: bool

record resourceRecordSet =
  rrs_Type :: string
  rrs_TTL :: "nat option"
  rrs_Name :: string
  rrs_ResourceRecords :: "string option list option"
  rrs_AliasTarget :: "aliasTarget option"

record change =
  Action :: string
  ResourceRecordSet :: resourceRecordSet

subsection \<open>The event\<close>

text \<open>
  The audit event of CloudTrail as the handler reads it. \<^verbatim>\<open>{items: [...]}\<close> is the
  record \<open>itemSet\<close>; a property that an event need not have is an \<open>option\<close>. A
  property name that two objects share is prefixed: \<open>rq_\<close> in the request parameters,
  \<open>rs_\<close> in the response elements, \<open>tag_\<close> in a tag. Every event of the bus has
  a \<^verbatim>\<open>source\<close> and a \<^verbatim>\<open>detail\<close> with an \<^verbatim>\<open>eventName\<close>; the request parameters and
  the response elements may be null (the response elements of a call that failed are).
\<close>

record tag =
  tag_key :: string
  tag_value :: "string option"

record 'a itemSet =
  items :: "'a list option"

record tagSpecification =
  tags :: "tag list option"

record instanceItem =
  instanceId :: string

record resourceItem =
  resourceId :: string

record loadBalancerItem =
  loadBalancerArn :: string

record requestParameters =
  tagSpecificationSet :: "tagSpecification itemSet option"
  rq_instancesSet :: "instanceItem itemSet option"
  tagSet :: "tag itemSet option"
  resourcesSet :: "resourceItem itemSet option"
  rq_tags :: "tag list option"
  rq_loadBalancerArn :: "string option"
  resourceArns :: "string list option"
  tagKeys :: "string list option"

record responseElements =
  rs_instancesSet :: "instanceItem itemSet option"
  loadBalancers :: "loadBalancerItem list option"

record detail =
  eventName :: string
  requestParameters :: "requestParameters option"
  responseElements :: "responseElements option"

record event =
  source :: string
  detail :: detail

subsection \<open>The services\<close>

text \<open>One request sent to an AWS client, with the parameters the handler passes.\<close>

datatype call =
    DescribeInstances string
  | DescribeLoadBalancers "string option"
  | ListHostedZonesByName string
  | ChangeResourceRecordSets string "change list"
  | DynamoGet "string option"
  | DynamoPut "string option" string resource
  | DynamoDelete "string option"

text \<open>
  The world outside the handler: the answers of the inventory and of the zone directory,
  the table, the requests a service rejects (\<open>fault\<close>), and the requests sent so far,
  oldest first.
\<close>

record world =
  reservations :: "string \<Rightarrow> resource list list"
  balancers :: "string option \<Rightarrow> resource list"
  hostedZones :: "string \<Rightarrow> hostedZone list"
  table :: "string \<rightharpoonup> tableItem"
  fault :: "call \<Rightarrow> error option"
  calls :: "call list"

type_synonym 'a io = "world \<Rightarrow> (error + 'a) \<times> world"

definition done_io :: "'a \<Rightarrow> 'a io" where
  "done_io x = (\<lambda>w. (Inr x, w))"

definition throw_io :: "error \<Rightarrow> 'a io" where
  "throw_io e = (\<lambda>w. (Inl e, w))"

definition lift_io :: "error + 'a \<Rightarrow> 'a io" where
  "lift_io r = (\<lambda>w. (r, w))"

definition bind_io :: "'a io \<Rightarrow> ('a \<Rightarrow> 'b io) \<Rightarrow> 'b io" where
  "bind_io m f = (\<lambda>w. case m w of (Inl e, w') \<Rightarrow> (Inl e, w') | (Inr x, w') \<Rightarrow> f x w')"

text \<open>Sending a request: it is recorded, and the promise rejects when the service does.\<close>

definition request :: "call \<Rightarrow> unit io" where
  "request c = (\<lambda>w.
     let w' = w\<lparr>calls := calls w @ [c]\<rparr>
     in case fault w c of Some e \<Rightarrow> (Inl e, w') | None \<Rightarrow> (Inr (), w'))"

subsection \<open>JavaScript primitives\<close>

text \<open>\<^verbatim>\<open>o.p\<close>: a TypeError when \<^verbatim>\<open>o\<close> is undefined.\<close>

definition get_prop :: "'a option \<Rightarrow> ('a \<Rightarrow> 'b) \<Rightarrow> error + 'b" where
  "get_prop obj p = (case obj of None \<Rightarrow> Inl TypeError | Some x \<Rightarrow> Inr (p x))"

text \<open>\<^verbatim>\<open>xs[0]\<close> on an array: undefined when the array is empty.\<close>

definition first :: "'a list \<Rightarrow> 'a option" where
  "first xs = (case xs of [] \<Rightarrow> None | x # _ \<Rightarrow> Some x)"

text \<open>\<^verbatim>\<open>xs[0]\<close> where \<^verbatim>\<open>xs\<close> itself may be undefined: then a TypeError.\<close>

definition index0 :: "'a list option \<Rightarrow> error + 'a option" where
  "index0 arr = get_prop arr first"

text \<open>Sequencing of property reads: the first TypeError ends the chain.\<close>

definition bind_e :: "error + 'a \<Rightarrow> ('a \<Rightarrow> error + 'b) \<Rightarrow> error + 'b" where
  "bind_e r f = (case r of Inl e \<Rightarrow> Inl e | Inr x \<Rightarrow> f x)"

text \<open>\<^verbatim>\<open>xs.pop()\<close> read for its value only: the last element, undefined when empty.\<close>

definition pop :: "'a list \<Rightarrow> 'a option" where
  "pop xs = (case rev xs of [] \<Rightarrow> None | x # _ \<Rightarrow> Some x)"

text \<open>\<^verbatim>\<open>s.indexOf(c)\<close> for a one-character \<^verbatim>\<open>c\<close>: the first position, or -1.\<close>

definition indexOf :: "string \<Rightarrow> char \<Rightarrow> int" where
  "indexOf s c = (if c \<in> set s then int (length (takeWhile (\<lambda>x. x \<noteq> c) s)) else - 1)"

text \<open>\<^verbatim>\<open>s.substring(start)\<close>: a negative start counts as 0, one past the end gives \<^verbatim>\<open>""\<close>.\<close>

definition substring :: "string \<Rightarrow> int \<Rightarrow> string" where
  "substring s start = drop (nat start) s"

text \<open>String concatenation turns \<^verbatim>\<open>undefined\<close> into the text \<^verbatim>\<open>"undefined"\<close>.\<close>

definition js_string :: "string option \<Rightarrow> string" where
  "js_string v = (case v of None \<Rightarrow> ''undefined'' | Some s \<Rightarrow> s)"

subsection \<open>Constants and helpers of update-records.js\<close>

definition DEFAULT_TTL :: nat where
  "DEFAULT_TTL = 300"

definition TAG_KEY :: string where
  "TAG_KEY = ''bcs:route53:record''"

definition getDomain :: "string \<Rightarrow> string" where
  "getDomain url = substring url (indexOf url (CHR ''.'') + 1)"

definition findEntry :: "tag list option \<Rightarrow> tag option" where
  "findEntry tgs = (case tgs of None \<Rightarrow> None
     | Some ts \<Rightarrow> pop (filter (\<lambda>t. tag_key t = TAG_KEY) ts))"

definition findKey :: "string list option \<Rightarrow> string option" where
  "findKey tgs = (case tgs of None \<Rightarrow> None
     | Some ts \<Rightarrow> pop (filter (\<lambda>t. t = TAG_KEY) ts))"

subsection \<open>class HostedZone\<close>

text \<open>\<open>load\<close> returns what it assigns to the field \<^verbatim>\<open>zone\<close>.\<close>

definition HostedZone_load :: "string \<Rightarrow> hostedZone option io" where
  "HostedZone_load dnsName =
     bind_io (request (ListHostedZonesByName dnsName)) (\<lambda>_.
     (\<lambda>w. (Inr (first (hostedZones w dnsName)), w)))"

definition HostedZone_id :: "hostedZone option \<Rightarrow> error + string" where
  "HostedZone_id zone = get_prop zone zone_Id"

text \<open>
  The three lines every branch of the handler repeats:
  \<^verbatim>\<open>zone = new HostedZone(getDomain(alias)); await zone.load(); ... zone.id\<close>.
\<close>

definition resolveZone :: "string \<Rightarrow> string io" where
  "resolveZone alias =
     bind_io (HostedZone_load (getDomain alias)) (\<lambda>zone.
     lift_io (HostedZone_id zone))"

text \<open>
  \<^verbatim>\<open>getDomain(entry.value)\<close> calls \<^verbatim>\<open>substring\<close> on the value: a TypeError when the tag
  has no value.
\<close>

definition string_of :: "string option \<Rightarrow> error + string" where
  "string_of v = get_prop v (\<lambda>s. s)"

subsection \<open>class RecordTable\<close>

text \<open>
  DynamoDB rejects a request whose key attribute \<^verbatim>\<open>id\<close> is undefined (the document
  client drops the attribute, and the service answers ValidationException). The answer of
  a get is an object, so \<^verbatim>\<open>item ? item.Item : null\<close> is \<^verbatim>\<open>item.Item\<close>: the row, or
  undefined when there is none.
\<close>

definition getItem :: "string option \<Rightarrow> tableItem option io" where
  "getItem ident =
     bind_io (request (DynamoGet ident)) (\<lambda>_.
     case ident of None \<Rightarrow> throw_io (Rejected ''ValidationException'')
     | Some k \<Rightarrow> (\<lambda>w. (Inr (table w k), w)))"

definition update :: "string option \<Rightarrow> string \<Rightarrow> resource \<Rightarrow> unit io" where
  "update ident alias obj =
     bind_io (request (DynamoPut ident alias obj)) (\<lambda>_.
     case ident of None \<Rightarrow> throw_io (Rejected ''ValidationException'')
     | Some k \<Rightarrow> (\<lambda>w. (Inr (),
         w\<lparr>table := (table w)(k \<mapsto> \<lparr>item_alias = alias, item_object = obj\<rparr>)\<rparr>)))"

definition remove :: "string option \<Rightarrow> unit io" where
  "remove ident =
     bind_io (request (DynamoDelete ident)) (\<lambda>_.
     case ident of None \<Rightarrow> throw_io (Rejected ''ValidationException'')
     | Some k \<Rightarrow> (\<lambda>w. (Inr (), w\<lparr>table := (table w)(k := None)\<rparr>)))"

subsection \<open>class Ec2Handler\<close>

text \<open>\<open>load\<close> returns what it assigns to the field \<^verbatim>\<open>instance\<close>.\<close>

definition Ec2Handler_load :: "string \<Rightarrow> resource option io" where
  "Ec2Handler_load ident =
     bind_io (request (DescribeInstances ident)) (\<lambda>_.
     (\<lambda>w. (get_prop (first (reservations w ident)) first, w)))"

definition Ec2Handler_changeBatch :: "resource \<Rightarrow> string \<Rightarrow> bool \<Rightarrow> change list" where
  "Ec2Handler_changeBatch inst alias upsert =
     [\<lparr>Action = (if upsert then ''UPSERT'' else ''DELETE''),
       ResourceRecordSet = \<lparr>
         rrs_Type = ''A'',
         rrs_TTL = Some DEFAULT_TTL,
         rrs_Name = alias,
         rrs_ResourceRecords = Some [PrivateIpAddress inst],
         rrs_AliasTarget = None\<rparr>\<rparr>]"

text \<open>Building the change batch reads \<^verbatim>\<open>this.instance.PrivateIpAddress\<close> first.\<close>

definition Ec2Handler_updateRecords ::
  "resource option \<Rightarrow> string \<Rightarrow> string \<Rightarrow> bool \<Rightarrow> unit io" where
  "Ec2Handler_updateRecords this_instance zoneId alias upsert =
     (case this_instance of None \<Rightarrow> throw_io TypeError
      | Some inst \<Rightarrow>
          bind_io (if upsert then update (InstanceId inst) alias inst
                   else remove (InstanceId inst)) (\<lambda>_.
          request (ChangeResourceRecordSets zoneId (Ec2Handler_changeBatch inst alias upsert))))"

subsection \<open>class ElbHandler\<close>

definition ElbHandler_load :: "string option \<Rightarrow> resource option io" where
  "ElbHandler_load lbArn =
     bind_io (request (DescribeLoadBalancers lbArn)) (\<lambda>_.
     (\<lambda>w. (Inr (first (balancers w lbArn)), w)))"

definition ElbHandler_changeBatch :: "resource \<Rightarrow> string \<Rightarrow> bool \<Rightarrow> change list" where
  "ElbHandler_changeBatch lb alias upsert =
     [\<lparr>Action = (if upsert then ''UPSERT'' else ''DELETE''),
       ResourceRecordSet = \<lparr>
         rrs_Type = ''A'',
         rrs_TTL = None,
         rrs_Name = alias,
         rrs_ResourceRecords = None,
         rrs_AliasTarget = Some \<lparr>
           at_HostedZoneId = CanonicalHostedZoneId lb,
           at_DNSName = (if Type lb = Some ''application'' then ''dualstack.'' else '''')
                          @ js_string (DNSName lb) @ ''.'',
           at_EvaluateTargetHealth = True\<rparr>\<rparr>\<rparr>]"

text \<open>Building the change batch reads \<^verbatim>\<open>this.lb.CanonicalHostedZoneId\<close> first.\<close>

definition ElbHandler_updateRecords ::
  "resource option \<Rightarrow> string \<Rightarrow> string \<Rightarrow> bool \<Rightarrow> unit io" where
  "ElbHandler_updateRecords this_lb zoneId alias upsert =
     (case this_lb of None \<Rightarrow> throw_io TypeError
      | Some lb \<Rightarrow>
          bind_io (if upsert then update (LoadBalancerArn lb) alias lb
                   else remove (LoadBalancerArn lb)) (\<lambda>_.
          request (ChangeResourceRecordSets zoneId (ElbHandler_changeBatch lb alias upsert))))"

subsection \<open>The handler\<close>

text \<open>
  \<^verbatim>\<open>return\<close> inside a case and \<^verbatim>\<open>break\<close> both end the function, since nothing follows
  the \<^verbatim>\<open>switch\<close>. An event name that matches no case falls through the switch.
\<close>

definition processEc2 :: "detail \<Rightarrow> unit io" where
  "processEc2 dt =
    (let parameters = requestParameters dt in
     if eventName dt = ''RunInstances'' then
       bind_io (lift_io (get_prop parameters tagSpecificationSet)) (\<lambda>tss.
       case tss of None \<Rightarrow> done_io ()
       | Some tagSpecs \<Rightarrow>
       bind_io (lift_io (bind_e (index0 (items tagSpecs)) (\<lambda>ts. get_prop ts tags))) (\<lambda>tgs.
       case findEntry tgs of None \<Rightarrow> done_io ()
       | Some entry \<Rightarrow>
       bind_io (lift_io
         (bind_e (get_prop (responseElements dt) rs_instancesSet) (\<lambda>iset.
          bind_e (get_prop iset items) (\<lambda>its.
          bind_e (index0 its) (\<lambda>it. get_prop it instanceId))))) (\<lambda>ident.
       bind_io (Ec2Handler_load ident) (\<lambda>inst.
       bind_io (lift_io (string_of (tag_value entry))) (\<lambda>alias.
       bind_io (resolveZone alias) (\<lambda>zoneId.
       Ec2Handler_updateRecords inst zoneId alias True))))))
     else if eventName dt = ''TerminateInstances'' then
       bind_io (lift_io
         (bind_e (get_prop parameters rq_instancesSet) (\<lambda>iset.
          bind_e (get_prop iset items) (\<lambda>its.
          bind_e (index0 its) (\<lambda>it. get_prop it instanceId))))) (\<lambda>ident.
       bind_io (getItem (Some ident)) (\<lambda>item.
       case item of None \<Rightarrow> done_io ()
       | Some row \<Rightarrow>
       bind_io (resolveZone (item_alias row)) (\<lambda>zoneId.
       Ec2Handler_updateRecords (Some (item_object row)) zoneId (item_alias row) False)))
     else if eventName dt = ''CreateTags'' \<or> eventName dt = ''DeleteTags'' then
       bind_io (lift_io
         (bind_e (get_prop parameters tagSet) (\<lambda>tset. get_prop tset items))) (\<lambda>tgs.
       case findEntry tgs of None \<Rightarrow> done_io ()
       | Some entry \<Rightarrow>
       bind_io (lift_io
         (bind_e (get_prop parameters resourcesSet) (\<lambda>rset.
          bind_e (get_prop rset items) (\<lambda>its.
          bind_e (index0 its) (\<lambda>it. get_prop it resourceId))))) (\<lambda>ident.
       bind_io (Ec2Handler_load ident) (\<lambda>inst.
       bind_io (lift_io (string_of (tag_value entry))) (\<lambda>alias.
       bind_io (resolveZone alias) (\<lambda>zoneId.
       Ec2Handler_updateRecords inst zoneId alias (eventName dt = ''CreateTags''))))))
     else done_io ())"

definition processElb :: "detail \<Rightarrow> unit io" where
  "processElb dt =
    (let parameters = requestParameters dt in
     if eventName dt = ''CreateLoadBalancer'' then
       bind_io (lift_io (get_prop parameters rq_tags)) (\<lambda>tgs.
       case findEntry tgs of None \<Rightarrow> done_io ()
       | Some entry \<Rightarrow>
       bind_io (lift_io
         (bind_e (get_prop (responseElements dt) loadBalancers) (\<lambda>lbs.
          bind_e (index0 lbs) (\<lambda>it. get_prop it loadBalancerArn)))) (\<lambda>lbArn.
       bind_io (ElbHandler_load (Some lbArn)) (\<lambda>lb.
       bind_io (lift_io (string_of (tag_value entry))) (\<lambda>alias.
       bind_io (resolveZone alias) (\<lambda>zoneId.
       ElbHandler_updateRecords lb zoneId alias True)))))
     else if eventName dt = ''DeleteLoadBalancer'' then
       bind_io (lift_io (get_prop parameters rq_loadBalancerArn)) (\<lambda>lbArn.
       bind_io (getItem lbArn) (\<lambda>item.
       case item of None \<Rightarrow> done_io ()
       | Some row \<Rightarrow>
       bind_io (resolveZone (item_alias row)) (\<lambda>zoneId.
       ElbHandler_updateRecords (Some (item_object row)) zoneId (item_alias row) False)))
     else if eventName dt = ''AddTags'' then
       bind_io (lift_io (get_prop parameters rq_tags)) (\<lambda>tgs.
       case findEntry tgs of None \<Rightarrow> done_io ()
       | Some entry \<Rightarrow>
       bind_io (lift_io (bind_e (get_prop parameters resourceArns) index0)) (\<lambda>lbArn.
       bind_io (ElbHandler_load lbArn) (\<lambda>lb.
       bind_io (lift_io (string_of (tag_value entry))) (\<lambda>alias.
       bind_io (resolveZone alias) (\<lambda>zoneId.
       ElbHandler_updateRecords lb zoneId alias True)))))
     else if eventName dt = ''RemoveTags'' then
       bind_io (lift_io (get_prop parameters tagKeys)) (\<lambda>keys.
       case findKey keys of None \<Rightarrow> done_io ()
       | Some entry \<Rightarrow>
       bind_io (lift_io (bind_e (get_prop parameters resourceArns) index0)) (\<lambda>lbArn.
       bind_io (getItem lbArn) (\<lambda>item.
       bind_io (lift_io (get_prop item item_alias)) (\<lambda>alias.
       bind_io (resolveZone alias) (\<lambda>zoneId.
       bind_io (lift_io (get_prop item item_object)) (\<lambda>obj.
       ElbHandler_updateRecords (Some obj) zoneId alias False))))))
     else done_io ())"

definition handler :: "event \<Rightarrow> unit io" where
  "handler ev =
     (if source ev = ''aws.ec2'' then processEc2 (detail ev)
      else if source ev = ''aws.elasticloadbalancing'' then processElb (detail ev)
      else done_io ())"

subsection \<open>Notions used to state the properties\<close>

text \<open>The requests a run has sent: what it appended to \<open>calls\<close>.\<close>

definition new_calls :: "world \<Rightarrow> world \<Rightarrow> call list" where
  "new_calls w w' = drop (length (calls w)) (calls w')"

text \<open>The table mutation a mutator sends for a flag: a put to upsert, a delete otherwise.\<close>

definition store_call :: "bool \<Rightarrow> string option \<Rightarrow> string \<Rightarrow> resource \<Rightarrow> call" where
  "store_call upsert ident alias obj =
     (if upsert then DynamoPut ident alias obj else DynamoDelete ident)"

text \<open>The eight pairs of event source and event name that some case of the handler names.\<close>

definition recognized :: "string \<Rightarrow> string \<Rightarrow> bool" where
  "recognized src name =
     (src = ''aws.ec2'' \<and>
        (name = ''RunInstances'' \<or> name = ''TerminateInstances'' \<or>
         name = ''CreateTags'' \<or> name = ''DeleteTags'') \<or>
      src = ''aws.elasticloadbalancing'' \<and>
        (name = ''CreateLoadBalancer'' \<or> name = ''DeleteLoadBalancer'' \<or>
         name = ''AddTags'' \<or> name = ''RemoveTags''))"

text \<open>
  The parent domain in the words of the specification: the name without its leftmost
  label, that is, everything after the first dot.
\<close>

definition after_first_dot :: "string \<Rightarrow> string" where
  "after_first_dot s = tl (dropWhile (\<lambda>c. c \<noteq> CHR ''.'') s)"

text \<open>All the tags a launch request carries, over all of its tag specifications.\<close>

definition carried_tags :: "event \<Rightarrow> tag list" where
  "carried_tags ev =
     (case requestParameters (detail ev) of None \<Rightarrow> []
      | Some p \<Rightarrow> (case tagSpecificationSet p of None \<Rightarrow> []
        | Some tss \<Rightarrow> (case items tss of None \<Rightarrow> []
          | Some specs \<Rightarrow> concat (map (\<lambda>ts. case tags ts of None \<Rightarrow> [] | Some tgs \<Rightarrow> tgs) specs))))"

text \<open>
  The event with every list of resources and of tag specifications cut after its first
  element: the tag specifications, the instances of the request and of the response, the
  tagged resources, the balancers of the response and the balancer arns. The lists of
  tags and of tag keys are left whole.
\<close>

definition head_only :: "'a list option \<Rightarrow> 'a list option" where
  "head_only arr = map_option (take 1) arr"

definition head_only_items :: "'a itemSet option \<Rightarrow> 'a itemSet option" where
  "head_only_items s = map_option (\<lambda>x. x\<lparr>items := head_only (items x)\<rparr>) s"

definition firstOnly :: "event \<Rightarrow> event" where
  "firstOnly ev = ev\<lparr>detail := (detail ev)\<lparr>
     requestParameters := map_option (\<lambda>p. p\<lparr>
         tagSpecificationSet := head_only_items (tagSpecificationSet p),
         rq_instancesSet := head_only_items (rq_instancesSet p),
         resourcesSet := head_only_items (resourcesSet p),
         resourceArns := head_only (resourceArns p)\<rparr>)
       (requestParameters (detail ev)),
     responseElements := map_option (\<lambda>r. r\<lparr>
         rs_instancesSet := head_only_items (rs_instancesSet r),
         loadBalancers := head_only (loadBalancers r)\<rparr>)
       (responseElements (detail ev))\<rparr>\<rparr>"

subsection \<open>Example events and worlds\<close>

definition ex_instance :: resource where
  "ex_instance = \<lparr>InstanceId = Some ''i-0abc'', PrivateIpAddress = Some ''10.0.0.5'',
     LoadBalancerArn = None, CanonicalHostedZoneId = None, DNSName = None, Type = None\<rparr>"

definition ex_instance2 :: resource where
  "ex_instance2 = \<lparr>InstanceId = Some ''i-0def'', PrivateIpAddress = Some ''10.0.0.6'',
     LoadBalancerArn = None, CanonicalHostedZoneId = None, DNSName = None, Type = None\<rparr>"

definition ex_arn :: string where
  "ex_arn = ''arn:aws:elasticloadbalancing:loadbalancer/app/web/1''"

definition ex_balancer :: resource where
  "ex_balancer = \<lparr>InstanceId = None, PrivateIpAddress = None,
     LoadBalancerArn = Some ex_arn, CanonicalHostedZoneId = Some ''Z32O12XQLNTSW2'',
     DNSName = Some ''web-1.elb.amazonaws.com'', Type = Some ''application''\<rparr>"

definition ex_zone :: hostedZone where
  "ex_zone = \<lparr>zone_Id = ''/hostedzone/Z1'', zone_Name = ''example.com.''\<rparr>"

text \<open>A world that knows one instance, one balancer and one zone; its table is empty.\<close>

definition ex_world :: world where
  "ex_world = \<lparr>
     reservations = (\<lambda>i. if i = ''i-0abc'' then [[ex_instance]] else []),
     balancers = (\<lambda>a. if a = Some ex_arn then [ex_balancer] else []),
     hostedZones = (\<lambda>d. if d = ''example.com'' then [ex_zone] else []),
     table = Map.empty,
     fault = (\<lambda>c. None),
     calls = []\<rparr>"

text \<open>The same world after two instances and the balancer have been linked.\<close>

definition ex_linked_world :: world where
  "ex_linked_world = ex_world\<lparr>table :=
     [''i-0abc'' \<mapsto> \<lparr>item_alias = ''svc.example.com'', item_object = ex_instance\<rparr>,
      ''i-0def'' \<mapsto> \<lparr>item_alias = ''db.example.com'', item_object = ex_instance2\<rparr>,
      ex_arn \<mapsto> \<lparr>item_alias = ''web.example.com'', item_object = ex_balancer\<rparr>]\<rparr>"

definition no_parameters :: requestParameters where
  "no_parameters = \<lparr>tagSpecificationSet = None, rq_instancesSet = None, tagSet = None,
     resourcesSet = None, rq_tags = None, rq_loadBalancerArn = None, resourceArns = None,
     tagKeys = None\<rparr>"

definition designated_tag :: tag where
  "designated_tag = \<lparr>tag_key = TAG_KEY, tag_value = Some ''svc.example.com''\<rparr>"

definition ex_launch_response :: responseElements where
  "ex_launch_response =
     \<lparr>rs_instancesSet = Some \<lparr>items = Some [\<lparr>instanceId = ''i-0abc''\<rparr>]\<rparr>,
      loadBalancers = None\<rparr>"

text \<open>A launch whose only tag specification carries the designated tag.\<close>

definition ex_launch :: event where
  "ex_launch = \<lparr>source = ''aws.ec2'', detail = \<lparr>eventName = ''RunInstances'',
     requestParameters = Some (no_parameters\<lparr>tagSpecificationSet :=
        Some \<lparr>items = Some [\<lparr>tags = Some [designated_tag]\<rparr>]\<rparr>\<rparr>),
     responseElements = Some ex_launch_response\<rparr>\<rparr>"

text \<open>
  A launch with two tag specifications (say, one for the volumes and one for the
  instance): the designated tag is in the second.
\<close>

definition ex_launch_tag_second :: event where
  "ex_launch_tag_second = \<lparr>source = ''aws.ec2'', detail = \<lparr>eventName = ''RunInstances'',
     requestParameters = Some (no_parameters\<lparr>tagSpecificationSet :=
        Some \<lparr>items = Some
          [\<lparr>tags = Some [\<lparr>tag_key = ''Name'', tag_value = Some ''data''\<rparr>]\<rparr>,
           \<lparr>tags = Some [designated_tag]\<rparr>]\<rparr>\<rparr>),
     responseElements = Some ex_launch_response\<rparr>\<rparr>"

definition ex_terminate :: event where
  "ex_terminate = \<lparr>source = ''aws.ec2'', detail = \<lparr>eventName = ''TerminateInstances'',
     requestParameters = Some (no_parameters\<lparr>rq_instancesSet :=
        Some \<lparr>items = Some [\<lparr>instanceId = ''i-0abc''\<rparr>]\<rparr>\<rparr>),
     responseElements = None\<rparr>\<rparr>"

text \<open>One termination request for two instances.\<close>

definition ex_terminate_two :: event where
  "ex_terminate_two = \<lparr>source = ''aws.ec2'', detail = \<lparr>eventName = ''TerminateInstances'',
     requestParameters = Some (no_parameters\<lparr>rq_instancesSet :=
        Some \<lparr>items = Some [\<lparr>instanceId = ''i-0abc''\<rparr>, \<lparr>instanceId = ''i-0def''\<rparr>]\<rparr>\<rparr>),
     responseElements = None\<rparr>\<rparr>"

definition ex_removeTags :: event where
  "ex_removeTags = \<lparr>source = ''aws.elasticloadbalancing'', detail = \<lparr>eventName = ''RemoveTags'',
     requestParameters = Some (no_parameters\<lparr>tagKeys := Some [TAG_KEY],
        resourceArns := Some [ex_arn]\<rparr>),
     responseElements = None\<rparr>\<rparr>"

text \<open>An event of a known source whose name no case of the handler names.\<close>

definition ex_stop :: event where
  "ex_stop = \<lparr>source = ''aws.ec2'', detail = \<lparr>eventName = ''StopInstances'',
     requestParameters = None, responseElements = None\<rparr>\<rparr>"

section \<open>Properties\<close>

subsection \<open>Auxiliary facts\<close>

lemmas io_defs = bind_io_def lift_io_def done_io_def throw_io_def request_def

lemmas js_defs = get_prop_def bind_e_def index0_def first_def string_of_def

lemma pop_eq_last: "xs \<noteq> [] \<Longrightarrow> pop xs = Some (last xs)"
  by (cases xs rule: rev_cases) (simp_all add: pop_def)

lemma findKey_present: "TAG_KEY \<in> set keys \<Longrightarrow> findKey (Some keys) = Some TAG_KEY"
proof -
  assume present: "TAG_KEY \<in> set keys"
  let ?hits = "filter (\<lambda>t. t = TAG_KEY) keys"
  from present have ne: "?hits \<noteq> []" by (auto simp: filter_empty_conv)
  then have "last ?hits \<in> set ?hits" by (rule last_in_set)
  then have "last ?hits = TAG_KEY" by simp
  with ne show ?thesis by (simp add: findKey_def pop_eq_last)
qed

lemma findKey_absent: "TAG_KEY \<notin> set keys \<Longrightarrow> findKey (Some keys) = None"
proof -
  assume "TAG_KEY \<notin> set keys"
  then have "filter (\<lambda>t. t = TAG_KEY) keys = []"
    by (induction keys) auto
  then show ?thesis by (simp add: findKey_def pop_def)
qed

lemma findEntry_absent:
  "TAG_KEY \<notin> tag_key ` set tgs \<Longrightarrow> findEntry (Some tgs) = None"
proof -
  assume "TAG_KEY \<notin> tag_key ` set tgs"
  then have "filter (\<lambda>t. tag_key t = TAG_KEY) tgs = []"
    by (induction tgs) auto
  then show ?thesis by (simp add: findEntry_def pop_def)
qed

text \<open>Tag keys are unique on a resource; then the entry found is the tag with the key.\<close>

lemma findEntry_unique:
  assumes "distinct (map tag_key tgs)" and "t \<in> set tgs" and "tag_key t = TAG_KEY"
  shows "findEntry (Some tgs) = Some t"
proof -
  let ?hits = "filter (\<lambda>t. tag_key t = TAG_KEY) tgs"
  from assms have ne: "?hits \<noteq> []" by (auto simp: filter_empty_conv)
  then have "last ?hits \<in> set ?hits" by (rule last_in_set)
  then have "last ?hits \<in> set tgs" and "tag_key (last ?hits) = TAG_KEY" by auto
  with assms have "last ?hits = t"
    by (metis distinct_map inj_onD)
  with ne show ?thesis by (simp add: findEntry_def pop_eq_last)
qed

lemma takeWhile_upto:
  "c \<notin> set pre \<Longrightarrow> takeWhile (\<lambda>x. x \<noteq> c) (pre @ c # post) = pre"
  by (induction pre) auto

lemma dropWhile_upto:
  "c \<notin> set pre \<Longrightarrow> dropWhile (\<lambda>x. x \<noteq> c) (pre @ c # post) = c # post"
  by (induction pre) auto

lemma getDomain_dot:
  assumes "CHR ''.'' \<notin> set label"
  shows "getDomain (label @ CHR ''.'' # rest) = rest"
  using assms
  by (simp add: getDomain_def indexOf_def substring_def takeWhile_upto nat_add_distrib)

lemma getDomain_no_dot: "CHR ''.'' \<notin> set url \<Longrightarrow> getDomain url = url"
  by (simp add: getDomain_def indexOf_def substring_def)

lemma getDomain_after_first_dot:
  "getDomain url = (if CHR ''.'' \<in> set url then after_first_dot url else url)"
proof (cases "CHR ''.'' \<in> set url")
  case True
  then obtain label rest where "url = label @ CHR ''.'' # rest" and "CHR ''.'' \<notin> set label"
    by (meson split_list_first)
  then show ?thesis
    by (simp add: getDomain_dot after_first_dot_def dropWhile_upto)
next
  case False
  then show ?thesis by (simp add: getDomain_no_dot)
qed

lemma getDomain_svc: "getDomain ''svc.example.com'' = ''example.com''"
  by (simp add: getDomain_def indexOf_def substring_def)

lemma getDomain_web: "getDomain ''web.example.com'' = ''example.com''"
  by (simp add: getDomain_def indexOf_def substring_def)

text \<open>The two mutators send the same requests in the same order.\<close>

lemma Ec2Handler_updateRecords_calls:
  "new_calls w (snd (Ec2Handler_updateRecords this_instance zoneId alias upsert w)) =
     (case this_instance of None \<Rightarrow> []
      | Some inst \<Rightarrow>
          let storeCall = (if upsert then DynamoPut (InstanceId inst) alias inst
                           else DynamoDelete (InstanceId inst))
          in case InstanceId inst of None \<Rightarrow> [storeCall]
             | Some k \<Rightarrow>
                 (case fault w storeCall of Some e \<Rightarrow> [storeCall]
                  | None \<Rightarrow> [storeCall,
                      ChangeResourceRecordSets zoneId (Ec2Handler_changeBatch inst alias upsert)]))"
  by (simp add: Ec2Handler_updateRecords_def update_def remove_def io_defs new_calls_def Let_def
      split: option.splits)

lemma ElbHandler_updateRecords_calls:
  "new_calls w (snd (ElbHandler_updateRecords this_lb zoneId alias upsert w)) =
     (case this_lb of None \<Rightarrow> []
      | Some lb \<Rightarrow>
          let storeCall = (if upsert then DynamoPut (LoadBalancerArn lb) alias lb
                           else DynamoDelete (LoadBalancerArn lb))
          in case LoadBalancerArn lb of None \<Rightarrow> [storeCall]
             | Some k \<Rightarrow>
                 (case fault w storeCall of Some e \<Rightarrow> [storeCall]
                  | None \<Rightarrow> [storeCall,
                      ChangeResourceRecordSets zoneId (ElbHandler_changeBatch lb alias upsert)]))"
  by (simp add: ElbHandler_updateRecords_def update_def remove_def io_defs new_calls_def Let_def
      split: option.splits)

text \<open>
  When the change request is rejected after the put, the row stays in the table: the
  two are not undone together.
\<close>

lemma row_kept_when_change_rejected:
  assumes "InstanceId inst = Some k"
      and "fault w (DynamoPut (Some k) alias inst) = None"
      and "fault w (ChangeResourceRecordSets zoneId (Ec2Handler_changeBatch inst alias True)) = Some e"
  shows "Ec2Handler_updateRecords (Some inst) zoneId alias True w =
           (Inl e, w\<lparr>table := (table w)(k \<mapsto> \<lparr>item_alias = alias, item_object = inst\<rparr>),
                      calls := calls w @ [DynamoPut (Some k) alias inst,
                        ChangeResourceRecordSets zoneId (Ec2Handler_changeBatch inst alias True)]\<rparr>)"
  using assms
  by (simp add: Ec2Handler_updateRecords_def update_def io_defs)

text \<open>
  A row that a mutator writes is filed under the id its snapshot carries: the instance id
  for an instance, the arn for a balancer.
\<close>

lemma table_after_Ec2Handler_updateRecords:
  "table (snd (Ec2Handler_updateRecords this_instance zoneId alias upsert w)) =
     (case this_instance of None \<Rightarrow> table w
      | Some inst \<Rightarrow>
          (case InstanceId inst of None \<Rightarrow> table w
           | Some k \<Rightarrow>
               (case fault w (store_call upsert (Some k) alias inst) of Some e \<Rightarrow> table w
                | None \<Rightarrow>
                    if upsert then (table w)(k \<mapsto> \<lparr>item_alias = alias, item_object = inst\<rparr>)
                    else (table w)(k := None))))"
  by (simp add: Ec2Handler_updateRecords_def update_def remove_def io_defs store_call_def Let_def
      split: option.splits)

lemma table_after_ElbHandler_updateRecords:
  "table (snd (ElbHandler_updateRecords this_lb zoneId alias upsert w)) =
     (case this_lb of None \<Rightarrow> table w
      | Some lb \<Rightarrow>
          (case LoadBalancerArn lb of None \<Rightarrow> table w
           | Some k \<Rightarrow>
               (case fault w (store_call upsert (Some k) alias lb) of Some e \<Rightarrow> table w
                | None \<Rightarrow>
                    if upsert then (table w)(k \<mapsto> \<lparr>item_alias = alias, item_object = lb\<rparr>)
                    else (table w)(k := None))))"
  by (simp add: ElbHandler_updateRecords_def update_def remove_def io_defs store_call_def Let_def
      split: option.splits)

lemma written_rows_carry_their_key:
  "table (snd (Ec2Handler_updateRecords this_instance zoneId alias upsert w)) k = Some row \<Longrightarrow>
   table w k \<noteq> Some row \<Longrightarrow>
   InstanceId (item_object row) = Some k \<and> item_alias row = alias"
  "table (snd (ElbHandler_updateRecords this_lb zoneId alias upsert w)) k = Some row \<Longrightarrow>
   table w k \<noteq> Some row \<Longrightarrow>
   LoadBalancerArn (item_object row) = Some k \<and> item_alias row = alias"
  by (auto simp: table_after_Ec2Handler_updateRecords table_after_ElbHandler_updateRecords
      split: option.splits if_splits)

subsection \<open>Events the handler does not know\<close>

text \<open>
  Claim C7. An event whose source and event name are not one of the eight pairs the
  handler names is answered without any request to a service: the handler returns
  normally and the world, with its table and its list of requests, is as before.
\<close>

theorem unrecognized_event_no_calls:
  assumes "\<not> recognized (source ev) (eventName (detail ev))"
  shows "handler ev w = (Inr (), w)"
  using assms
  by (simp add: handler_def processEc2_def processElb_def recognized_def done_io_def)

theorem unrecognized_event_no_calls_witness:
  "\<not> recognized (source ex_stop) (eventName (detail ex_stop)) \<and>
   handler ex_stop ex_linked_world = (Inr (), ex_linked_world)"
proof -
  have unknown: "\<not> recognized (source ex_stop) (eventName (detail ex_stop))"
    by (simp add: recognized_def ex_stop_def)
  from unrecognized_event_no_calls [OF unknown] show ?thesis
    using unknown by simp
qed

subsection \<open>The association table\<close>

text \<open>
  Claim C8. For every resource id and every table, when neither request is rejected,
  the put of a row for the id followed by the delete for the same id succeeds and leaves
  the table without a row for the id; the other rows are as before.
\<close>

theorem upsert_then_delete:
  assumes "fault w (DynamoPut (Some k) alias obj) = None"
      and "fault w (DynamoDelete (Some k)) = None"
  shows "bind_io (update (Some k) alias obj) (\<lambda>_. remove (Some k)) w =
           (Inr (), w\<lparr>table := (table w)(k := None),
                       calls := calls w @ [DynamoPut (Some k) alias obj, DynamoDelete (Some k)]\<rparr>)
         \<and> table (snd (bind_io (update (Some k) alias obj) (\<lambda>_. remove (Some k)) w)) k = None"
  using assms
  by (simp add: update_def remove_def io_defs)

theorem upsert_then_delete_witness:
  "fault ex_linked_world (DynamoPut (Some ''i-0abc'') ''new.example.com'' ex_instance) = None \<and>
   fault ex_linked_world (DynamoDelete (Some ''i-0abc'')) = None \<and>
   table ex_linked_world ''i-0abc'' =
     Some \<lparr>item_alias = ''svc.example.com'', item_object = ex_instance\<rparr> \<and>
   table (snd (bind_io (update (Some ''i-0abc'') ''new.example.com'' ex_instance)
                 (\<lambda>_. remove (Some ''i-0abc'')) ex_linked_world)) ''i-0abc'' = None"
proof -
  have put_ok: "fault ex_linked_world (DynamoPut (Some ''i-0abc'') ''new.example.com'' ex_instance) = None"
    by (simp add: ex_linked_world_def ex_world_def)
  have delete_ok: "fault ex_linked_world (DynamoDelete (Some ''i-0abc'')) = None"
    by (simp add: ex_linked_world_def ex_world_def)
  have before: "table ex_linked_world ''i-0abc'' =
      Some \<lparr>item_alias = ''svc.example.com'', item_object = ex_instance\<rparr>"
    by (simp add: ex_linked_world_def ex_world_def ex_arn_def)
  from upsert_then_delete [OF put_ok delete_ok] put_ok delete_ok before
  show ?thesis by simp
qed

subsection \<open>The record mutators\<close>

text \<open>
  Claim C3. In every run of \<open>updateRecords\<close>, of the instance handler and of the balancer
  handler, the first request sent is the table mutation: the put when \<open>upsert\<close> is true,
  the delete when it is false. The change request to the zone, when it is sent at all, is
  the second request and the last; it is never sent first. A handler without a loaded
  resource sends nothing.
\<close>

theorem store_mutation_before_change:
  "(let sent = new_calls w (snd (Ec2Handler_updateRecords (Some inst) zoneId alias upsert w));
        mutation = store_call upsert (InstanceId inst) alias inst
    in sent = [mutation] \<or>
       sent = [mutation,
               ChangeResourceRecordSets zoneId (Ec2Handler_changeBatch inst alias upsert)]) \<and>
   (let sent = new_calls w (snd (ElbHandler_updateRecords (Some lb) zoneId alias upsert w));
        mutation = store_call upsert (LoadBalancerArn lb) alias lb
    in sent = [mutation] \<or>
       sent = [mutation,
               ChangeResourceRecordSets zoneId (ElbHandler_changeBatch lb alias upsert)]) \<and>
   new_calls w (snd (Ec2Handler_updateRecords None zoneId alias upsert w)) = [] \<and>
   new_calls w (snd (ElbHandler_updateRecords None zoneId alias upsert w)) = []"
  by (simp add: Ec2Handler_updateRecords_calls ElbHandler_updateRecords_calls store_call_def
      Let_def split: option.splits)

theorem store_mutation_before_change_witness:
  "new_calls ex_world (snd (Ec2Handler_updateRecords (Some ex_instance) ''/hostedzone/Z1''
       ''svc.example.com'' True ex_world)) =
     [DynamoPut (Some ''i-0abc'') ''svc.example.com'' ex_instance,
      ChangeResourceRecordSets ''/hostedzone/Z1''
        (Ec2Handler_changeBatch ex_instance ''svc.example.com'' True)] \<and>
   new_calls ex_linked_world (snd (ElbHandler_updateRecords (Some ex_balancer) ''/hostedzone/Z1''
       ''web.example.com'' False ex_linked_world)) =
     [DynamoDelete (Some ex_arn),
      ChangeResourceRecordSets ''/hostedzone/Z1''
        (ElbHandler_changeBatch ex_balancer ''web.example.com'' False)]"
proof -
  have put_sent: "new_calls ex_world (snd (Ec2Handler_updateRecords (Some ex_instance)
       ''/hostedzone/Z1'' ''svc.example.com'' True ex_world)) \<noteq>
     [store_call True (InstanceId ex_instance) ''svc.example.com'' ex_instance]"
    by (simp add: Ec2Handler_updateRecords_calls ex_world_def ex_instance_def)
  have delete_sent: "new_calls ex_linked_world (snd (ElbHandler_updateRecords (Some ex_balancer)
       ''/hostedzone/Z1'' ''web.example.com'' False ex_linked_world)) \<noteq>
     [store_call False (LoadBalancerArn ex_balancer) ''web.example.com'' ex_balancer]"
    by (simp add: ElbHandler_updateRecords_calls ex_linked_world_def ex_world_def
        ex_balancer_def)
  from store_mutation_before_change
         [of ex_world ex_instance "''/hostedzone/Z1''" "''svc.example.com''" True ex_balancer]
       put_sent
  have first: "new_calls ex_world (snd (Ec2Handler_updateRecords (Some ex_instance)
       ''/hostedzone/Z1'' ''svc.example.com'' True ex_world)) =
     [store_call True (InstanceId ex_instance) ''svc.example.com'' ex_instance,
      ChangeResourceRecordSets ''/hostedzone/Z1''
        (Ec2Handler_changeBatch ex_instance ''svc.example.com'' True)]"
    by (simp add: Let_def)
  from store_mutation_before_change
         [of ex_linked_world ex_instance "''/hostedzone/Z1''" "''web.example.com''" False
             ex_balancer]
       delete_sent
  have second: "new_calls ex_linked_world (snd (ElbHandler_updateRecords (Some ex_balancer)
       ''/hostedzone/Z1'' ''web.example.com'' False ex_linked_world)) =
     [store_call False (LoadBalancerArn ex_balancer) ''web.example.com'' ex_balancer,
      ChangeResourceRecordSets ''/hostedzone/Z1''
        (ElbHandler_changeBatch ex_balancer ''web.example.com'' False)]"
    by (simp add: Let_def)
  from first second show ?thesis
    by (simp add: store_call_def ex_instance_def ex_balancer_def)
qed

text \<open>
  Claim C6. Every change request a mutator sends carries exactly one change, of this
  shape. For an instance: type A, a time to live of 300 seconds, the alias as name, and
  the private address of the instance as the only value. For a balancer: type A with an
  alias target made of the canonical hosted zone id of the balancer, its DNS name
  followed by a dot and preceded by \<^verbatim>\<open>dualstack.\<close> exactly when the type of the balancer is
  \<^verbatim>\<open>application\<close>, and target health evaluation switched on. In both the action is
  \<^verbatim>\<open>UPSERT\<close> when \<open>upsert\<close> is true and \<^verbatim>\<open>DELETE\<close> otherwise.
\<close>

theorem change_shape:
  "(ChangeResourceRecordSets z cs \<in>
      set (new_calls w (snd (Ec2Handler_updateRecords this_instance zoneId alias upsert w))) \<longrightarrow>
    (\<exists>inst. this_instance = Some inst \<and> z = zoneId \<and>
       cs = [\<lparr>Action = (if upsert then ''UPSERT'' else ''DELETE''),
              ResourceRecordSet = \<lparr>rrs_Type = ''A'', rrs_TTL = Some 300, rrs_Name = alias,
                rrs_ResourceRecords = Some [PrivateIpAddress inst],
                rrs_AliasTarget = None\<rparr>\<rparr>])) \<and>
   (ChangeResourceRecordSets z cs \<in>
      set (new_calls w (snd (ElbHandler_updateRecords this_lb zoneId alias upsert w))) \<longrightarrow>
    (\<exists>lb. this_lb = Some lb \<and> z = zoneId \<and>
       cs = [\<lparr>Action = (if upsert then ''UPSERT'' else ''DELETE''),
              ResourceRecordSet = \<lparr>rrs_Type = ''A'', rrs_TTL = None, rrs_Name = alias,
                rrs_ResourceRecords = None,
                rrs_AliasTarget = Some \<lparr>
                  at_HostedZoneId = CanonicalHostedZoneId lb,
                  at_DNSName =
                    (if Type lb = Some ''application'' then ''dualstack.'' else '''')
                    @ js_string (DNSName lb) @ ''.'',
                  at_EvaluateTargetHealth = True\<rparr>\<rparr>\<rparr>]))"
  by (auto simp: Ec2Handler_updateRecords_calls ElbHandler_updateRecords_calls
      Ec2Handler_changeBatch_def ElbHandler_changeBatch_def DEFAULT_TTL_def Let_def
      split: option.splits if_splits)

theorem change_shape_witness:
  "ChangeResourceRecordSets ''/hostedzone/Z1''
      (Ec2Handler_changeBatch ex_instance ''svc.example.com'' True) \<in>
     set (new_calls ex_world (snd (Ec2Handler_updateRecords (Some ex_instance)
            ''/hostedzone/Z1'' ''svc.example.com'' True ex_world))) \<and>
   Ec2Handler_changeBatch ex_instance ''svc.example.com'' True =
     [\<lparr>Action = ''UPSERT'',
       ResourceRecordSet = \<lparr>rrs_Type = ''A'', rrs_TTL = Some 300,
         rrs_Name = ''svc.example.com'',
         rrs_ResourceRecords = Some [Some ''10.0.0.5''],
         rrs_AliasTarget = None\<rparr>\<rparr>] \<and>
   ChangeResourceRecordSets ''/hostedzone/Z1''
      (ElbHandler_changeBatch ex_balancer ''web.example.com'' False) \<in>
     set (new_calls ex_linked_world (snd (ElbHandler_updateRecords (Some ex_balancer)
            ''/hostedzone/Z1'' ''web.example.com'' False ex_linked_world))) \<and>
   ElbHandler_changeBatch ex_balancer ''web.example.com'' False =
     [\<lparr>Action = ''DELETE'',
       ResourceRecordSet = \<lparr>rrs_Type = ''A'', rrs_TTL = None,
         rrs_Name = ''web.example.com'',
         rrs_ResourceRecords = None,
         rrs_AliasTarget = Some \<lparr>
           at_HostedZoneId = Some ''Z32O12XQLNTSW2'',
           at_DNSName = ''dualstack.web-1.elb.amazonaws.com.'',
           at_EvaluateTargetHealth = True\<rparr>\<rparr>\<rparr>]"
proof -
  have sent1: "ChangeResourceRecordSets ''/hostedzone/Z1''
      (Ec2Handler_changeBatch ex_instance ''svc.example.com'' True) \<in>
     set (new_calls ex_world (snd (Ec2Handler_updateRecords (Some ex_instance)
            ''/hostedzone/Z1'' ''svc.example.com'' True ex_world)))"
    by (simp add: Ec2Handler_updateRecords_calls ex_world_def ex_instance_def)
  have sent2: "ChangeResourceRecordSets ''/hostedzone/Z1''
      (ElbHandler_changeBatch ex_balancer ''web.example.com'' False) \<in>
     set (new_calls ex_linked_world (snd (ElbHandler_updateRecords (Some ex_balancer)
            ''/hostedzone/Z1'' ''web.example.com'' False ex_linked_world)))"
    by (simp add: ElbHandler_updateRecords_calls ex_linked_world_def ex_world_def
        ex_balancer_def)
  from change_shape [THEN conjunct1, THEN mp, OF sent1]
  have shape1: "Ec2Handler_changeBatch ex_instance ''svc.example.com'' True =
     [\<lparr>Action = ''UPSERT'',
       ResourceRecordSet = \<lparr>rrs_Type = ''A'', rrs_TTL = Some 300,
         rrs_Name = ''svc.example.com'',
         rrs_ResourceRecords = Some [Some ''10.0.0.5''],
         rrs_AliasTarget = None\<rparr>\<rparr>]"
    by (simp add: ex_instance_def)
  from change_shape [THEN conjunct2, THEN mp, OF sent2]
  have shape2: "ElbHandler_changeBatch ex_balancer ''web.example.com'' False =
     [\<lparr>Action = ''DELETE'',
       ResourceRecordSet = \<lparr>rrs_Type = ''A'', rrs_TTL = None,
         rrs_Name = ''web.example.com'',
         rrs_ResourceRecords = None,
         rrs_AliasTarget = Some \<lparr>
           at_HostedZoneId = Some ''Z32O12XQLNTSW2'',
           at_DNSName = ''dualstack.web-1.elb.amazonaws.com.'',
           at_EvaluateTargetHealth = True\<rparr>\<rparr>\<rparr>]"
    by (simp add: ex_balancer_def js_string_def)
  from sent1 shape1 sent2 shape2 show ?thesis by blast
qed

subsection \<open>Zone resolution\<close>

text \<open>
  Claim C9, as amended. Zone resolution asks the zone directory once, for
  \<open>getDomain alias\<close>, and when the request is not rejected and the answer is not empty it
  returns the id of the first zone of the answer. For an alias with a dot the name asked
  for is everything after the first dot; for an alias without a dot it is the whole
  alias.
\<close>

theorem resolveZone_first_zone:
  assumes "fault w (ListHostedZonesByName (getDomain alias)) = None"
      and "hostedZones w (getDomain alias) = zone # more_zones"
  shows "resolveZone alias w =
           (Inr (zone_Id zone),
            w\<lparr>calls := calls w @ [ListHostedZonesByName (getDomain alias)]\<rparr>) \<and>
         getDomain alias = (if CHR ''.'' \<in> set alias then after_first_dot alias else alias)"
  using assms getDomain_after_first_dot
  by (simp add: resolveZone_def HostedZone_load_def HostedZone_id_def io_defs js_defs)

theorem resolveZone_first_zone_witness:
  "fault ex_world (ListHostedZonesByName (getDomain ''svc.example.com'')) = None \<and>
   hostedZones ex_world (getDomain ''svc.example.com'') = [ex_zone] \<and>
   resolveZone ''svc.example.com'' ex_world =
     (Inr ''/hostedzone/Z1'', ex_world\<lparr>calls := [ListHostedZonesByName ''example.com'']\<rparr>) \<and>
   after_first_dot ''svc.example.com'' = ''example.com''"
proof -
  have accepted: "fault ex_world (ListHostedZonesByName (getDomain ''svc.example.com'')) = None"
    by (simp add: ex_world_def)
  have answer: "hostedZones ex_world (getDomain ''svc.example.com'') = ex_zone # []"
    by (simp add: ex_world_def getDomain_svc)
  from resolveZone_first_zone [OF accepted answer] accepted answer
  show ?thesis
    by (simp add: getDomain_svc ex_zone_def ex_world_def)
qed

text \<open>
  The claim as first stated, for every alias, fails for an alias without a dot: the
  directory is asked for \<^verbatim>\<open>localhost\<close>, not for the empty name that is left of
  \<^verbatim>\<open>localhost\<close> after its leftmost label.
\<close>

theorem resolveZone_alias_without_dot:
  "new_calls ex_world (snd (resolveZone ''localhost'' ex_world)) =
     [ListHostedZonesByName ''localhost''] \<and>
   after_first_dot ''localhost'' = '''' \<and>
   new_calls ex_world (snd (resolveZone ''localhost'' ex_world)) \<noteq>
     [ListHostedZonesByName (after_first_dot ''localhost'')]"
  by (simp add: resolveZone_def HostedZone_load_def HostedZone_id_def io_defs js_defs
      getDomain_def indexOf_def substring_def after_first_dot_def new_calls_def ex_world_def)

subsection \<open>Launch of an instance\<close>

text \<open>
  Claim C2, as amended. Take a launch event whose first tag specification carries the
  designated tag with a value (\<^verbatim>\<open>svc.example.com\<close> in the claim) and whose response lists
  the new instance first. When the inventory describes that instance under its id, the
  zone directory knows a zone for the parent domain of the value and no request is
  rejected, the handler returns normally; afterwards the table holds a row under the id
  of the new instance with the value as alias and the instance as snapshot, and the
  requests sent are one describe, one zone lookup, one put and exactly one change
  request, whose action is \<^verbatim>\<open>UPSERT\<close> and whose name is the value.
\<close>

theorem launch_links_record:
  assumes "source ev = ''aws.ec2''" and "eventName (detail ev) = ''RunInstances''"
      and "requestParameters (detail ev) = Some rp"
      and "tagSpecificationSet rp = Some tss" and "items tss = Some (ts # more_specs)"
      and "findEntry (tags ts) = Some entry" and "tag_value entry = Some alias"
      and "responseElements (detail ev) = Some re"
      and "rs_instancesSet re = Some iset" and "items iset = Some (it # more_instances)"
      and "reservations w (instanceId it) = (inst # more_inst) # more_res"
      and "InstanceId inst = Some (instanceId it)"
      and "hostedZones w (getDomain alias) = zone # more_zones"
      and "fault w = (\<lambda>_. None)"
  shows "handler ev w =
     (Inr (),
      w\<lparr>table := (table w)(instanceId it \<mapsto> \<lparr>item_alias = alias, item_object = inst\<rparr>),
        calls := calls w @
          [DescribeInstances (instanceId it),
           ListHostedZonesByName (getDomain alias),
           DynamoPut (Some (instanceId it)) alias inst,
           ChangeResourceRecordSets (zone_Id zone)
             [\<lparr>Action = ''UPSERT'',
               ResourceRecordSet = \<lparr>rrs_Type = ''A'', rrs_TTL = Some 300, rrs_Name = alias,
                 rrs_ResourceRecords = Some [PrivateIpAddress inst],
                 rrs_AliasTarget = None\<rparr>\<rparr>]]\<rparr>)"
  using assms
  by (simp add: handler_def processEc2_def io_defs js_defs Ec2Handler_load_def
      resolveZone_def HostedZone_load_def HostedZone_id_def
      Ec2Handler_updateRecords_def update_def Ec2Handler_changeBatch_def DEFAULT_TTL_def)

theorem launch_links_record_witness:
  "findEntry (Some [designated_tag]) = Some designated_tag \<and>
   tag_value designated_tag = Some ''svc.example.com'' \<and>
   handler ex_launch ex_world =
     (Inr (),
      ex_world\<lparr>table := [''i-0abc'' \<mapsto>
                   \<lparr>item_alias = ''svc.example.com'', item_object = ex_instance\<rparr>],
        calls :=
          [DescribeInstances ''i-0abc'',
           ListHostedZonesByName ''example.com'',
           DynamoPut (Some ''i-0abc'') ''svc.example.com'' ex_instance,
           ChangeResourceRecordSets ''/hostedzone/Z1''
             [\<lparr>Action = ''UPSERT'',
               ResourceRecordSet = \<lparr>rrs_Type = ''A'', rrs_TTL = Some 300,
                 rrs_Name = ''svc.example.com'',
                 rrs_ResourceRecords = Some [Some ''10.0.0.5''],
                 rrs_AliasTarget = None\<rparr>\<rparr>]]\<rparr>)"
proof -
  let ?rp = "no_parameters\<lparr>tagSpecificationSet :=
        Some \<lparr>items = Some [\<lparr>tags = Some [designated_tag]\<rparr>]\<rparr>\<rparr>"
  have h1: "source ex_launch = ''aws.ec2''" by (simp add: ex_launch_def)
  have h2: "eventName (detail ex_launch) = ''RunInstances''" by (simp add: ex_launch_def)
  have h3: "requestParameters (detail ex_launch) = Some ?rp" by (simp add: ex_launch_def)
  have h4: "tagSpecificationSet ?rp = Some \<lparr>items = Some [\<lparr>tags = Some [designated_tag]\<rparr>]\<rparr>"
    by simp
  have h5: "items \<lparr>items = Some [\<lparr>tags = Some [designated_tag]\<rparr>]\<rparr> =
      Some (\<lparr>tags = Some [designated_tag]\<rparr> # [])"
    by simp
  have h6: "findEntry (tags \<lparr>tags = Some [designated_tag]\<rparr>) = Some designated_tag"
    by (simp add: findEntry_def pop_def designated_tag_def)
  have h7: "tag_value designated_tag = Some ''svc.example.com''"
    by (simp add: designated_tag_def)
  have h8: "responseElements (detail ex_launch) = Some ex_launch_response"
    by (simp add: ex_launch_def)
  have h9: "rs_instancesSet ex_launch_response = Some \<lparr>items = Some [\<lparr>instanceId = ''i-0abc''\<rparr>]\<rparr>"
    by (simp add: ex_launch_response_def)
  have h10: "items \<lparr>items = Some [\<lparr>instanceId = ''i-0abc''\<rparr>]\<rparr> =
      Some (\<lparr>instanceId = ''i-0abc''\<rparr> # [])"
    by simp
  have h11: "reservations ex_world (instanceId \<lparr>instanceId = ''i-0abc''\<rparr>) = (ex_instance # []) # []"
    by (simp add: ex_world_def)
  have h12: "InstanceId ex_instance = Some (instanceId \<lparr>instanceId = ''i-0abc''\<rparr>)"
    by (simp add: ex_instance_def)
  have h13: "hostedZones ex_world (getDomain ''svc.example.com'') = ex_zone # []"
    by (simp add: ex_world_def getDomain_svc)
  have h14: "fault ex_world = (\<lambda>_. None)" by (simp add: ex_world_def)
  have address: "PrivateIpAddress ex_instance = Some ''10.0.0.5''"
    by (simp add: ex_instance_def)
  from launch_links_record [OF h1 h2 h3 h4 h5 h6 h7 h8 h9 h10 h11 h12 h13 h14] h6 h7 address
  show ?thesis
    by (simp add: getDomain_svc ex_zone_def ex_world_def)
qed

text \<open>
  The claim as first stated, for every launch that carries the designated tag, fails when
  the tag is carried by a later tag specification: the handler looks at the first one
  only, returns, and neither the table nor any service hears of the launch.
\<close>

theorem launch_tag_in_second_specification:
  "designated_tag \<in> set (carried_tags ex_launch_tag_second) \<and>
   tag_key designated_tag = TAG_KEY \<and>
   tag_value designated_tag = Some ''svc.example.com'' \<and>
   handler ex_launch_tag_second ex_world = (Inr (), ex_world) \<and>
   table ex_world ''i-0abc'' = None \<and>
   calls ex_world = []"
  by (simp add: carried_tags_def ex_launch_tag_second_def designated_tag_def no_parameters_def
      handler_def processEc2_def io_defs js_defs findEntry_def pop_def TAG_KEY_def ex_world_def)

subsection \<open>Termination of an instance\<close>

text \<open>
  Claim C4. Take a termination event whose instance id (the first of the request) has a
  row in the table, with an alias (\<^verbatim>\<open>svc.example.com\<close> in the claim) and a snapshot that
  carries the same instance id, as every row written by the instance mutator does. When
  the zone directory knows a zone for the parent domain of the alias and no request is
  rejected, the handler returns normally, the row is gone, and the requests sent are the
  lookup of the row, one zone lookup, the delete of the row and one change request with
  action \<^verbatim>\<open>DELETE\<close> for the alias whose value is the private address of the snapshot. No
  describe request is sent, and the answer of the inventory (\<open>live\<close>) has no influence.
\<close>

theorem terminate_unlinks_record:
  assumes "source ev = ''aws.ec2''" and "eventName (detail ev) = ''TerminateInstances''"
      and "requestParameters (detail ev) = Some rp"
      and "rq_instancesSet rp = Some iset" and "items iset = Some (it # more_instances)"
      and "table w (instanceId it) = Some row"
      and "InstanceId (item_object row) = Some (instanceId it)"
      and "hostedZones w (getDomain (item_alias row)) = zone # more_zones"
      and "fault w = (\<lambda>_. None)"
  shows "handler ev (w\<lparr>reservations := live\<rparr>) =
     (Inr (),
      w\<lparr>reservations := live,
        table := (table w)(instanceId it := None),
        calls := calls w @
          [DynamoGet (Some (instanceId it)),
           ListHostedZonesByName (getDomain (item_alias row)),
           DynamoDelete (Some (instanceId it)),
           ChangeResourceRecordSets (zone_Id zone)
             [\<lparr>Action = ''DELETE'',
               ResourceRecordSet = \<lparr>rrs_Type = ''A'', rrs_TTL = Some 300,
                 rrs_Name = item_alias row,
                 rrs_ResourceRecords = Some [PrivateIpAddress (item_object row)],
                 rrs_AliasTarget = None\<rparr>\<rparr>]]\<rparr>)"
  using assms
  by (simp add: handler_def processEc2_def io_defs js_defs getItem_def
      resolveZone_def HostedZone_load_def HostedZone_id_def
      Ec2Handler_updateRecords_def remove_def Ec2Handler_changeBatch_def DEFAULT_TTL_def)

theorem terminate_unlinks_record_witness:
  "table ex_linked_world ''i-0abc'' =
     Some \<lparr>item_alias = ''svc.example.com'', item_object = ex_instance\<rparr> \<and>
   fst (handler ex_terminate (ex_linked_world\<lparr>reservations := (\<lambda>_. [])\<rparr>)) = Inr () \<and>
   table (snd (handler ex_terminate (ex_linked_world\<lparr>reservations := (\<lambda>_. [])\<rparr>))) ''i-0abc''
     = None \<and>
   calls (snd (handler ex_terminate (ex_linked_world\<lparr>reservations := (\<lambda>_. [])\<rparr>))) =
     [DynamoGet (Some ''i-0abc''),
      ListHostedZonesByName ''example.com'',
      DynamoDelete (Some ''i-0abc''),
      ChangeResourceRecordSets ''/hostedzone/Z1''
        [\<lparr>Action = ''DELETE'',
          ResourceRecordSet = \<lparr>rrs_Type = ''A'', rrs_TTL = Some 300,
            rrs_Name = ''svc.example.com'',
            rrs_ResourceRecords = Some [Some ''10.0.0.5''],
            rrs_AliasTarget = None\<rparr>\<rparr>]]"
proof -
  let ?rp = "no_parameters\<lparr>rq_instancesSet :=
        Some \<lparr>items = Some [\<lparr>instanceId = ''i-0abc''\<rparr>]\<rparr>\<rparr>"
  let ?row = "\<lparr>item_alias = ''svc.example.com'', item_object = ex_instance\<rparr>"
  have h1: "source ex_terminate = ''aws.ec2''" by (simp add: ex_terminate_def)
  have h2: "eventName (detail ex_terminate) = ''TerminateInstances''"
    by (simp add: ex_terminate_def)
  have h3: "requestParameters (detail ex_terminate) = Some ?rp" by (simp add: ex_terminate_def)
  have h4: "rq_instancesSet ?rp = Some \<lparr>items = Some [\<lparr>instanceId = ''i-0abc''\<rparr>]\<rparr>"
    by simp
  have h5: "items \<lparr>items = Some [\<lparr>instanceId = ''i-0abc''\<rparr>]\<rparr> =
      Some (\<lparr>instanceId = ''i-0abc''\<rparr> # [])"
    by simp
  have h6: "table ex_linked_world (instanceId \<lparr>instanceId = ''i-0abc''\<rparr>) = Some ?row"
    by (simp add: ex_linked_world_def ex_world_def ex_arn_def)
  have h7: "InstanceId (item_object ?row) = Some (instanceId \<lparr>instanceId = ''i-0abc''\<rparr>)"
    by (simp add: ex_instance_def)
  have h8: "hostedZones ex_linked_world (getDomain (item_alias ?row)) = ex_zone # []"
    by (simp add: ex_linked_world_def ex_world_def getDomain_svc)
  have h9: "fault ex_linked_world = (\<lambda>_. None)"
    by (simp add: ex_linked_world_def ex_world_def)
  have address: "PrivateIpAddress ex_instance = Some ''10.0.0.5''"
    by (simp add: ex_instance_def)
  have start: "calls ex_linked_world = []"
    by (simp add: ex_linked_world_def ex_world_def)
  from terminate_unlinks_record [OF h1 h2 h3 h4 h5 h6 h7 h8 h9, of "\<lambda>_. []"] h6 address start
  show ?thesis
    by (simp add: getDomain_svc ex_zone_def)
qed

text \<open>Without a row for the instance the termination is answered after the lookup.\<close>

lemma terminate_without_association:
  assumes "source ev = ''aws.ec2''" and "eventName (detail ev) = ''TerminateInstances''"
      and "requestParameters (detail ev) = Some rp"
      and "rq_instancesSet rp = Some iset" and "items iset = Some (it # more_instances)"
      and "table w (instanceId it) = None"
      and "fault w (DynamoGet (Some (instanceId it))) = None"
  shows "handler ev w = (Inr (), w\<lparr>calls := calls w @ [DynamoGet (Some (instanceId it))]\<rparr>)"
  using assms
  by (simp add: handler_def processEc2_def io_defs js_defs getItem_def)

subsection \<open>Events without the designated tag or without a row\<close>

text \<open>Without a row for the balancer its deletion is answered after the lookup.\<close>

lemma deleteLoadBalancer_without_association:
  assumes "source ev = ''aws.elasticloadbalancing''"
      and "eventName (detail ev) = ''DeleteLoadBalancer''"
      and "requestParameters (detail ev) = Some rp"
      and "rq_loadBalancerArn rp = Some arn"
      and "table w arn = None"
      and "fault w (DynamoGet (Some arn)) = None"
  shows "handler ev w = (Inr (), w\<lparr>calls := calls w @ [DynamoGet (Some arn)]\<rparr>)"
  using assms
  by (simp add: handler_def processElb_def io_defs js_defs getItem_def)

text \<open>
  The removal of tags has no such test: \<^verbatim>\<open>item.alias\<close> is read from the answer of the
  lookup as it is, and throws when there is no row.
\<close>

lemma removeTags_without_association:
  assumes "source ev = ''aws.elasticloadbalancing''" and "eventName (detail ev) = ''RemoveTags''"
      and "requestParameters (detail ev) = Some rp"
      and "tagKeys rp = Some keys" and "TAG_KEY \<in> set keys"
      and "resourceArns rp = Some (arn # more_arns)"
      and "table w arn = None"
      and "fault w (DynamoGet (Some arn)) = None"
  shows "handler ev w = (Inl TypeError, w\<lparr>calls := calls w @ [DynamoGet (Some arn)]\<rparr>)"
  using assms findKey_present
  by (simp add: handler_def processElb_def io_defs js_defs getItem_def)

text \<open>
  An event without the designated tag is answered at once, in every case that tests for
  the tag: nothing is sent and the world is as before.
\<close>

lemma launch_without_designated_tag:
  assumes "source ev = ''aws.ec2''" and "eventName (detail ev) = ''RunInstances''"
      and "requestParameters (detail ev) = Some rp"
      and "tagSpecificationSet rp = None \<or>
           (\<exists>tss ts more_specs tgs. tagSpecificationSet rp = Some tss \<and>
              items tss = Some (ts # more_specs) \<and> tags ts = Some tgs \<and>
              TAG_KEY \<notin> tag_key ` set tgs)"
  shows "handler ev w = (Inr (), w)"
  using assms findEntry_absent
  by (auto simp: handler_def processEc2_def io_defs js_defs)

lemma instance_tags_without_designated_tag:
  assumes "source ev = ''aws.ec2''"
      and "eventName (detail ev) = ''CreateTags'' \<or> eventName (detail ev) = ''DeleteTags''"
      and "requestParameters (detail ev) = Some rp"
      and "tagSet rp = Some tset" and "items tset = Some tgs"
      and "TAG_KEY \<notin> tag_key ` set tgs"
  shows "handler ev w = (Inr (), w)"
  using assms findEntry_absent
  by (auto simp: handler_def processEc2_def io_defs js_defs)

lemma balancer_tags_without_designated_tag:
  assumes "source ev = ''aws.elasticloadbalancing''"
      and "eventName (detail ev) = ''CreateLoadBalancer'' \<or> eventName (detail ev) = ''AddTags''"
      and "requestParameters (detail ev) = Some rp"
      and "rq_tags rp = Some tgs"
      and "TAG_KEY \<notin> tag_key ` set tgs"
  shows "handler ev w = (Inr (), w)"
  using assms findEntry_absent
  by (auto simp: handler_def processElb_def io_defs js_defs)

lemma removeTags_without_designated_key:
  assumes "source ev = ''aws.elasticloadbalancing''" and "eventName (detail ev) = ''RemoveTags''"
      and "requestParameters (detail ev) = Some rp"
      and "tagKeys rp = Some keys"
      and "TAG_KEY \<notin> set keys"
  shows "handler ev w = (Inr (), w)"
  using assms findKey_absent
  by (simp add: handler_def processElb_def io_defs js_defs)

text \<open>
  Claim C1. A recognized event without the designated tag, or for a resource without a
  row in the table, is to be answered without a change request and without an error, the
  removal of tags from a balancer without a row included. The lemmas above show this for
  the events without the tag, for the termination and for the deletion of a balancer.
  The handler does not do it for the removal of tags: when the designated key is removed
  from a balancer that has no row, it sends the lookup, sends no change request, and
  throws a TypeError.
\<close>

theorem removeTags_without_association_throws:
  "table ex_world ex_arn = None \<and>
   handler ex_removeTags ex_world =
     (Inl TypeError, ex_world\<lparr>calls := [DynamoGet (Some ex_arn)]\<rparr>)"
  by (simp add: handler_def processElb_def io_defs js_defs getItem_def findKey_def pop_def
      ex_removeTags_def no_parameters_def ex_world_def)

subsection \<open>Removal of tags from a load balancer\<close>

text \<open>
  Claim C5. Take a removal of tags from a balancer whose list of removed keys contains
  the designated key and whose arn (the first of the request) has a row in the table,
  with a snapshot that carries the same arn, as every row written by the balancer mutator
  does. When the zone directory knows a zone for the parent domain of the stored alias
  and no request is rejected, the handler returns normally and sends one change request
  with action \<^verbatim>\<open>DELETE\<close> whose name is the stored alias and whose target is built from
  the stored snapshot. The balancer is not described: whatever the inventory would
  answer about it now (\<open>live\<close>), the outcome is the same.
\<close>

theorem removeTags_uses_stored_alias:
  assumes "source ev = ''aws.elasticloadbalancing''" and "eventName (detail ev) = ''RemoveTags''"
      and "requestParameters (detail ev) = Some rp"
      and "tagKeys rp = Some keys" and "TAG_KEY \<in> set keys"
      and "resourceArns rp = Some (arn # more_arns)"
      and "table w arn = Some row"
      and "LoadBalancerArn (item_object row) = Some arn"
      and "hostedZones w (getDomain (item_alias row)) = zone # more_zones"
      and "fault w = (\<lambda>_. None)"
  shows "handler ev (w\<lparr>balancers := live\<rparr>) =
     (Inr (),
      w\<lparr>balancers := live,
        table := (table w)(arn := None),
        calls := calls w @
          [DynamoGet (Some arn),
           ListHostedZonesByName (getDomain (item_alias row)),
           DynamoDelete (Some arn),
           ChangeResourceRecordSets (zone_Id zone)
             [\<lparr>Action = ''DELETE'',
               ResourceRecordSet = \<lparr>rrs_Type = ''A'', rrs_TTL = None,
                 rrs_Name = item_alias row,
                 rrs_ResourceRecords = None,
                 rrs_AliasTarget = Some \<lparr>
                   at_HostedZoneId = CanonicalHostedZoneId (item_object row),
                   at_DNSName =
                     (if Type (item_object row) = Some ''application'' then ''dualstack.'' else '''')
                     @ js_string (DNSName (item_object row)) @ ''.'',
                   at_EvaluateTargetHealth = True\<rparr>\<rparr>\<rparr>]]\<rparr>)"
  using assms findKey_present
  by (simp add: handler_def processElb_def io_defs js_defs getItem_def
      resolveZone_def HostedZone_load_def HostedZone_id_def
      ElbHandler_updateRecords_def remove_def ElbHandler_changeBatch_def)

theorem removeTags_uses_stored_alias_witness:
  "TAG_KEY \<in> set [TAG_KEY] \<and>
   table ex_linked_world ex_arn =
     Some \<lparr>item_alias = ''web.example.com'', item_object = ex_balancer\<rparr> \<and>
   fst (handler ex_removeTags (ex_linked_world\<lparr>balancers := (\<lambda>_. [])\<rparr>)) = Inr () \<and>
   table (snd (handler ex_removeTags (ex_linked_world\<lparr>balancers := (\<lambda>_. [])\<rparr>))) ex_arn = None \<and>
   calls (snd (handler ex_removeTags (ex_linked_world\<lparr>balancers := (\<lambda>_. [])\<rparr>))) =
     [DynamoGet (Some ex_arn),
      ListHostedZonesByName ''example.com'',
      DynamoDelete (Some ex_arn),
      ChangeResourceRecordSets ''/hostedzone/Z1''
        [\<lparr>Action = ''DELETE'',
          ResourceRecordSet = \<lparr>rrs_Type = ''A'', rrs_TTL = None,
            rrs_Name = ''web.example.com'',
            rrs_ResourceRecords = None,
            rrs_AliasTarget = Some \<lparr>
              at_HostedZoneId = Some ''Z32O12XQLNTSW2'',
              at_DNSName = ''dualstack.web-1.elb.amazonaws.com.'',
              at_EvaluateTargetHealth = True\<rparr>\<rparr>\<rparr>]]"
proof -
  let ?rp = "no_parameters\<lparr>tagKeys := Some [TAG_KEY], resourceArns := Some [ex_arn]\<rparr>"
  let ?row = "\<lparr>item_alias = ''web.example.com'', item_object = ex_balancer\<rparr>"
  have h1: "source ex_removeTags = ''aws.elasticloadbalancing''"
    by (simp add: ex_removeTags_def)
  have h2: "eventName (detail ex_removeTags) = ''RemoveTags''" by (simp add: ex_removeTags_def)
  have h3: "requestParameters (detail ex_removeTags) = Some ?rp"
    by (simp add: ex_removeTags_def)
  have h4: "tagKeys ?rp = Some [TAG_KEY]" by simp
  have h5: "TAG_KEY \<in> set [TAG_KEY]" by simp
  have h6: "resourceArns ?rp = Some (ex_arn # [])" by simp
  have h7: "table ex_linked_world ex_arn = Some ?row"
    by (simp add: ex_linked_world_def ex_world_def)
  have h8: "LoadBalancerArn (item_object ?row) = Some ex_arn" by (simp add: ex_balancer_def)
  have h9: "hostedZones ex_linked_world (getDomain (item_alias ?row)) = ex_zone # []"
    by (simp add: ex_linked_world_def ex_world_def getDomain_web)
  have h10: "fault ex_linked_world = (\<lambda>_. None)"
    by (simp add: ex_linked_world_def ex_world_def)
  have snapshot: "CanonicalHostedZoneId ex_balancer = Some ''Z32O12XQLNTSW2''"
      "Type ex_balancer = Some ''application''"
      "js_string (DNSName ex_balancer) = ''web-1.elb.amazonaws.com''"
    by (simp_all add: ex_balancer_def js_string_def)
  have start: "calls ex_linked_world = []"
    by (simp add: ex_linked_world_def ex_world_def)
  from removeTags_uses_stored_alias [OF h1 h2 h3 h4 h5 h6 h7 h8 h9 h10, of "\<lambda>_. []"]
       h5 h7 snapshot start
  show ?thesis
    by (simp add: getDomain_web ex_zone_def)
qed

subsection \<open>Lists of resources\<close>

lemma index0_head_only: "index0 (head_only arr) = index0 arr"
  by (cases arr) (simp_all add: head_only_def index0_def get_prop_def first_def split: list.splits)

lemma get_prop_simps:
  "get_prop None p = Inl TypeError" "get_prop (Some x) p = Inr (p x)"
  by (simp_all add: get_prop_def)

lemma bind_e_simps: "bind_e (Inl e) f = Inl e" "bind_e (Inr x) f = f x"
  by (simp_all add: bind_e_def)

lemma bind_lift_Inl: "bind_io (lift_io (Inl e)) f = lift_io (Inl e)"
  by (simp add: bind_io_def lift_io_def)

lemma bind_lift_Inr: "bind_io (lift_io (Inr x)) f = f x"
  by (simp add: bind_io_def lift_io_def)

lemma items0_head_only:
  "bind_e (get_prop (head_only_items s) items) (\<lambda>its. bind_e (index0 its) f) =
   bind_e (get_prop s items) (\<lambda>its. bind_e (index0 its) f)"
  by (cases s) (simp_all add: head_only_items_def get_prop_simps bind_e_simps index0_head_only)

lemma case_head_only_items:
  "(case head_only_items s of None \<Rightarrow> a | Some x \<Rightarrow> f x) =
   (case s of None \<Rightarrow> a | Some x \<Rightarrow> f (x\<lparr>items := head_only (items x)\<rparr>))"
  by (cases s) (simp_all add: head_only_items_def)

lemmas firstOnly_simps = firstOnly_def index0_head_only items0_head_only case_head_only_items
  get_prop_simps bind_e_simps bind_lift_Inl bind_lift_Inr Let_def

lemma processEc2_firstOnly: "processEc2 (detail (firstOnly ev)) = processEc2 (detail ev)"
  by (cases "requestParameters (detail ev)"; cases "responseElements (detail ev)")
     (simp_all add: processEc2_def firstOnly_simps cong: option.case_cong)

lemma processElb_firstOnly: "processElb (detail (firstOnly ev)) = processElb (detail ev)"
  by (cases "requestParameters (detail ev)"; cases "responseElements (detail ev)")
     (simp_all add: processElb_def firstOnly_simps cong: option.case_cong)

text \<open>
  Claim C10. Of every list of resources or of tag specifications in an event (the
  tag specifications and the instances of a launch, the instances of a termination, the
  tagged resources, the balancers created, the balancer arns) the handler reads the
  first element only: it does to every world exactly what it does for the event with
  these lists cut after their first element, so whatever follows the first element
  changes neither the result, nor the table, nor the requests sent.
\<close>

theorem only_first_element_read: "handler ev w = handler (firstOnly ev) w"
proof -
  have "source (firstOnly ev) = source ev" by (simp add: firstOnly_def)
  then show ?thesis
    by (simp add: handler_def processEc2_firstOnly processElb_firstOnly)
qed

theorem only_first_element_read_witness:
  "firstOnly ex_terminate_two = ex_terminate \<and>
   handler ex_terminate_two ex_linked_world = handler ex_terminate ex_linked_world \<and>
   table (snd (handler ex_terminate_two ex_linked_world)) ''i-0abc'' = None \<and>
   table (snd (handler ex_terminate_two ex_linked_world)) ''i-0def'' =
     Some \<lparr>item_alias = ''db.example.com'', item_object = ex_instance2\<rparr> \<and>
   new_calls ex_linked_world (snd (handler ex_terminate_two ex_linked_world)) =
     [DynamoGet (Some ''i-0abc''),
      ListHostedZonesByName ''example.com'',
      DynamoDelete (Some ''i-0abc''),
      ChangeResourceRecordSets ''/hostedzone/Z1''
        (Ec2Handler_changeBatch ex_instance ''svc.example.com'' False)]"
proof -
  have cut: "firstOnly ex_terminate_two = ex_terminate"
    by (simp add: firstOnly_def ex_terminate_two_def ex_terminate_def no_parameters_def
        head_only_items_def head_only_def)
  have run: "handler ex_terminate ex_linked_world =
     (Inr (),
      ex_linked_world\<lparr>table := (table ex_linked_world)(''i-0abc'' := None),
        calls := [DynamoGet (Some ''i-0abc''),
          ListHostedZonesByName ''example.com'',
          DynamoDelete (Some ''i-0abc''),
          ChangeResourceRecordSets ''/hostedzone/Z1''
            (Ec2Handler_changeBatch ex_instance ''svc.example.com'' False)]\<rparr>)"
    by (simp add: handler_def processEc2_def io_defs js_defs getItem_def
        resolveZone_def HostedZone_load_def HostedZone_id_def getDomain_svc
        Ec2Handler_updateRecords_def remove_def ex_terminate_def no_parameters_def
        ex_linked_world_def ex_world_def ex_arn_def ex_zone_def ex_instance_def)
  have other: "table ex_linked_world ''i-0def'' =
      Some \<lparr>item_alias = ''db.example.com'', item_object = ex_instance2\<rparr>"
    by (simp add: ex_linked_world_def ex_world_def ex_arn_def)
  have start: "calls ex_linked_world = []"
    by (simp add: ex_linked_world_def ex_world_def)
  from only_first_element_read [of ex_terminate_two ex_linked_world] cut
  have same: "handler ex_terminate_two ex_linked_world = handler ex_terminate ex_linked_world"
    by simp
  from same cut run other start show ?thesis
    by (simp add: new_calls_def)
qed

end
